theory Spec2Isabelle
  imports Main
begin

section \<open>The visit counter handler of \<^verbatim>\<open>counter.py\<close>\<close>

text \<open>
  The repository is one function, \<^verbatim>\<open>lambda_handler(event, context)\<close>. It reads the
  optional \<^verbatim>\<open>body\<close> of the event, decodes it when it is a string, extracts and
  normalizes the \<^verbatim>\<open>path\<close>, asks the table to add one to the counter of that path
  and answers with a status code and a JSON body.

  The Python values that reach the handler are JSON-shaped, the exceptions are values of
  a sum type, the calls to the JSON library and to the table are calls to parameters of
  the model, and the state of the table is passed explicitly.
\<close>

subsection \<open>Python values\<close>

text \<open>
  A Python \<^verbatim>\<open>float\<close>: sign, mantissa and binary exponent of a finite number
  (\<open>(-1)\<^sup>s * m * 2\<^sup>e\<close>), an infinity with its sign, or not-a-number. Only its
  truth value matters to the handler.
\<close>

datatype pyfloat = FFinite bool nat int | FInf bool | FNaN

text \<open>
  What \<^verbatim>\<open>json.loads\<close> produces, and what an event decoded by the hosting environment
  holds: \<^verbatim>\<open>None\<close>, \<^verbatim>\<open>bool\<close>, \<^verbatim>\<open>int\<close>, \<^verbatim>\<open>float\<close>,
  \<^verbatim>\<open>str\<close>, \<^verbatim>\<open>list\<close> and \<^verbatim>\<open>dict\<close> with string keys (in insertion order,
  keys distinct).
\<close>

datatype json =
    JNone
  | JBool bool
  | JInt int
  | JFloat pyfloat
  | JStr string
  | JList "json list"
  | JDict "(string \<times> json) list"

text \<open>
  The exceptions that occur, each with the text \<^verbatim>\<open>str(e)\<close> gives. All of them derive
  from \<^verbatim>\<open>Exception\<close>; \<open>OtherException\<close> stands for any other subclass of it.
\<close>

datatype exn =
    ClientError string
  | JSONDecodeError string
  | AttributeError string
  | KeyError string
  | OtherException string

fun str_exn :: "exn \<Rightarrow> string" where
  "str_exn (ClientError m) = m"
| "str_exn (JSONDecodeError m) = m"
| "str_exn (AttributeError m) = m"
| "str_exn (KeyError m) = m"
| "str_exn (OtherException m) = m"

text \<open>\<^verbatim>\<open>repr\<close> of a string without quotes or backslashes in it: the string in single quotes.\<close>

definition quoted :: "string \<Rightarrow> string" where
  "quoted s = [CHR 0x27] @ s @ [CHR 0x27]"

fun type_name :: "json \<Rightarrow> string" where
  "type_name JNone = ''NoneType''"
| "type_name (JBool _) = ''bool''"
| "type_name (JInt _) = ''int''"
| "type_name (JFloat _) = ''float''"
| "type_name (JStr _) = ''str''"
| "type_name (JList _) = ''list''"
| "type_name (JDict _) = ''dict''"

text \<open>
  \<^verbatim>\<open>x.get(key, default)\<close>: a method of \<^verbatim>\<open>dict\<close> only; on any other value the
  attribute lookup raises \<^verbatim>\<open>AttributeError\<close>.
\<close>

fun py_get :: "json \<Rightarrow> string \<Rightarrow> json \<Rightarrow> exn + json" where
  "py_get (JDict d) key dflt =
     Inr (case map_of d key of None \<Rightarrow> dflt | Some v \<Rightarrow> v)"
| "py_get x key dflt =
     Inl (AttributeError (quoted (type_name x) @ '' object has no attribute '' @ quoted ''get''))"

text \<open>The truth value Python gives a value in \<^verbatim>\<open>not path\<close>.\<close>

fun float_truthy :: "pyfloat \<Rightarrow> bool" where
  "float_truthy (FFinite s m e) = (m \<noteq> 0)"
| "float_truthy (FInf s) = True"
| "float_truthy FNaN = True"

fun truthy :: "json \<Rightarrow> bool" where
  "truthy JNone = False"
| "truthy (JBool b) = b"
| "truthy (JInt n) = (n \<noteq> 0)"
| "truthy (JFloat f) = float_truthy f"
| "truthy (JStr s) = (s \<noteq> [])"
| "truthy (JList xs) = (xs \<noteq> [])"
| "truthy (JDict d) = (d \<noteq> [])"

subsection \<open>The JSON library\<close>

text \<open>
  \<^verbatim>\<open>json.loads\<close> and \<^verbatim>\<open>json.dumps\<close> are the standard library's: the model takes
  them as parameters. \<^verbatim>\<open>json.loads\<close> returns a value or raises; \<^verbatim>\<open>json.dumps\<close>
  returns a string on every JSON-shaped value.
\<close>

record json_lib =
  json_loads :: "string \<Rightarrow> exn + json"
  json_dumps :: "json \<Rightarrow> string"

subsection \<open>The table\<close>

text \<open>
  A number attribute as the table's client returns it: an \<^verbatim>\<open>int\<close> (the mocked
  table of the tests) or a finite \<^verbatim>\<open>Decimal\<close> with coefficient \<open>c\<close> and exponent
  \<open>e\<close>, of value \<open>c * 10\<^sup>e\<close> (the real client).
\<close>

datatype number = NInt int | NDecimal int int

text \<open>\<^verbatim>\<open>int(x)\<close>: the identity on \<^verbatim>\<open>int\<close>, truncation towards zero on \<^verbatim>\<open>Decimal\<close>.\<close>

fun py_int :: "number \<Rightarrow> int" where
  "py_int (NInt n) = n"
| "py_int (NDecimal c e) =
     (if 0 \<le> e then c * 10 ^ nat e
      else sgn c * (\<bar>c\<bar> div 10 ^ nat (- e)))"

text \<open>The keyword arguments of \<^verbatim>\<open>table.update_item\<close>.\<close>

record update_item_request =
  Key :: "(string \<times> json) list"
  UpdateExpression :: string
  ExpressionAttributeValues :: "(string \<times> json) list"
  ReturnValues :: string

text \<open>
  The dictionary \<^verbatim>\<open>table.update_item\<close> returns: it may hold \<^verbatim>\<open>"Attributes"\<close>, a
  dictionary from attribute names to numbers.
\<close>

record update_item_output =
  Attributes :: "(string \<times> number) list option"

text \<open>
  The table's client: a call takes the request and the state of the world behind the
  client, and raises or returns, with the state after the call.
\<close>

type_synonym 'st client = "update_item_request \<Rightarrow> 'st \<Rightarrow> (exn + update_item_output) \<times> 'st"

subsection \<open>The handler\<close>

record response =
  statusCode :: int
  headers :: "(string \<times> string) list option"
  body :: string

type_synonym event = "string \<rightharpoonup> json"

text \<open>
  Lines 10 to 12, before the \<^verbatim>\<open>try\<close>:
  \<^verbatim>\<open>
    body = event.get("body", "{}")
    if isinstance(body, str):
        body = json.loads(body)
  \<close>
\<close>

definition decode_body :: "json_lib \<Rightarrow> event \<Rightarrow> exn + json" where
  "decode_body lib event =
     (let body = (case event ''body'' of None \<Rightarrow> JStr ''{}'' | Some b \<Rightarrow> b)
      in case body of JStr s \<Rightarrow> json_loads lib s | _ \<Rightarrow> Inr body)"

text \<open>
  Lines 17 to 23, the normalization of the extracted path:
  \<^verbatim>\<open>
        if not path:
            return {"statusCode": 400, ...}
        if path == "/":
            path = "/index.html"
  \<close>
  \<open>None\<close> is the early return with status 400; otherwise the result is the path the
  rest of the handler uses.
\<close>

definition normalize_path :: "json \<Rightarrow> json option" where
  "normalize_path path =
     (if \<not> truthy path then None
      else Some (if path = JStr ''/'' then JStr ''/index.html'' else path))"

text \<open>The request of lines 24 to 29.\<close>

definition increment_request :: "json \<Rightarrow> update_item_request" where
  "increment_request path =
     \<lparr> Key = [(''path'', path)],
       UpdateExpression = ''SET visit_count = if_not_exists(visit_count, :start) + :inc'',
       ExpressionAttributeValues = [('':inc'', JInt 1), ('':start'', JInt 0)],
       ReturnValues = ''UPDATED_NEW'' \<rparr>"

text \<open>
  \<^verbatim>\<open>response["Attributes"]["visit_count"]\<close> of line 40: each subscript raises
  \<^verbatim>\<open>KeyError\<close> when the key is missing.
\<close>

definition visit_count_of :: "update_item_output \<Rightarrow> exn + number" where
  "visit_count_of out =
     (case Attributes out of
        None \<Rightarrow> Inl (KeyError (quoted ''Attributes''))
      | Some attrs \<Rightarrow>
          (case map_of attrs ''visit_count'' of
             None \<Rightarrow> Inl (KeyError (quoted ''visit_count''))
           | Some v \<Rightarrow> Inr v))"

definition missing_path_response :: "json_lib \<Rightarrow> response" where
  "missing_path_response lib =
     \<lparr> statusCode = 400, headers = None,
       body = json_dumps lib (JDict [(''error'', JStr ''Missing path parameter'')]) \<rparr>"

definition success_response :: "json_lib \<Rightarrow> json \<Rightarrow> int \<Rightarrow> response" where
  "success_response lib path n =
     \<lparr> statusCode = 200,
       headers = Some [(''Access-Control-Allow-Origin'', ''*''),
                       (''Content-Type'', ''application/json'')],
       body = json_dumps lib (JDict [(''path'', path), (''visit_count'', JInt n)]) \<rparr>"

definition error_response :: "json_lib \<Rightarrow> exn \<Rightarrow> response" where
  "error_response lib e =
     \<lparr> statusCode = 500, headers = None,
       body = json_dumps lib (JDict [(''error'', JStr (str_exn e))]) \<rparr>"

text \<open>
  The body of the \<^verbatim>\<open>try\<close>, lines 15 to 43, on the decoded body \<open>payload\<close>: it
  returns a response or raises.
\<close>

definition try_block :: "json_lib \<Rightarrow> 'st client \<Rightarrow> json \<Rightarrow> 'st \<Rightarrow> (exn + response) \<times> 'st" where
  "try_block lib update_item payload st =
     (case py_get payload ''path'' (JStr ''/'') of
        Inl e \<Rightarrow> (Inl e, st)
      | Inr path \<Rightarrow>
          (case normalize_path path of
             None \<Rightarrow> (Inr (missing_path_response lib), st)
           | Some path' \<Rightarrow>
               (case update_item (increment_request path') st of
                  (Inl e, st') \<Rightarrow> (Inl e, st')
                | (Inr out, st') \<Rightarrow>
                    (case visit_count_of out of
                       Inl e \<Rightarrow> (Inl e, st')
                     | Inr v \<Rightarrow> (Inr (success_response lib path' (py_int v)), st')))))"

text \<open>
  The handler. An exception of lines 10 to 12 leaves the function (\<open>Inl\<close>); an exception
  of the \<^verbatim>\<open>try\<close> is caught by one of the two \<^verbatim>\<open>except\<close> clauses, which build the
  same response.
\<close>

definition lambda_handler :: "json_lib \<Rightarrow> 'st client \<Rightarrow> event \<Rightarrow> 'st \<Rightarrow> (exn + response) \<times> 'st" where
  "lambda_handler lib update_item event st =
     (case decode_body lib event of
        Inl e \<Rightarrow> (Inl e, st)
      | Inr payload \<Rightarrow>
          (case try_block lib update_item payload st of
             (Inl (ClientError m), st') \<Rightarrow> (Inr (error_response lib (ClientError m)), st')
           | (Inl e, st') \<Rightarrow> (Inr (error_response lib e), st')
           | (Inr r, st') \<Rightarrow> (Inr r, st')))"

text \<open>
  The path lines 10 to 23 arrive at for an event, when they arrive at one: the key of the
  call to the table.
\<close>

definition resolved_path :: "json_lib \<Rightarrow> event \<Rightarrow> json option" where
  "resolved_path lib event =
     (case decode_body lib event of
        Inl e \<Rightarrow> None
      | Inr payload \<Rightarrow>
          (case py_get payload ''path'' (JStr ''/'') of
             Inl e \<Rightarrow> None
           | Inr path \<Rightarrow> normalize_path path))"

subsection \<open>Counting the calls to the table\<close>

text \<open>
  A client that keeps, next to its state, the list of the requests it has received, in
  order. The handler run on \<open>recording c\<close> shows which calls it makes.
\<close>

definition recording :: "'st client \<Rightarrow> (update_item_request list \<times> 'st) client" where
  "recording c req s =
     (case s of (log, st) \<Rightarrow>
        (case c req st of (r, st') \<Rightarrow> (r, (log @ [req], st'))))"

subsection \<open>A model of the table\<close>

type_synonym table = "string \<rightharpoonup> int"

text \<open>
  Modelled from the spec: the external key-value store, which is not part of the
  repository. The table maps a path to its \<^verbatim>\<open>visit_count\<close>. One call is one
  indivisible step: for the update expression the handler sends,
  \<^verbatim>\<open>visit_count = (existing visit_count, or :start if the record does not exist) + :inc\<close>,
  and with \<^verbatim>\<open>UPDATED_NEW\<close> the call returns the new value of the attribute, as a
  \<^verbatim>\<open>Decimal\<close>. Any other request is refused with a client error.
\<close>

definition table_update_item :: "table client" where
  "table_update_item req t =
     (case (Key req, map_of (ExpressionAttributeValues req) '':start'',
            map_of (ExpressionAttributeValues req) '':inc'') of
        ([(k, JStr p)], Some (JInt start), Some (JInt inc)) \<Rightarrow>
          if k = ''path''
             \<and> UpdateExpression req = ''SET visit_count = if_not_exists(visit_count, :start) + :inc''
             \<and> ReturnValues req = ''UPDATED_NEW''
          then
            (let n = (case t p of None \<Rightarrow> start | Some c \<Rightarrow> c) + inc
             in (Inr \<lparr> Attributes = Some [(''visit_count'', NDecimal n 0)] \<rparr>, t(p \<mapsto> n)))
          else (Inl (ClientError ''ValidationException''), t)
      | _ \<Rightarrow> (Inl (ClientError ''ValidationException''), t))"

subsection \<open>Several invocations\<close>

text \<open>
  The hosting environment invokes the handler once per event. The invocations share
  nothing but the table, and each one reaches the table in at most one call, which the
  table serves as one step: a run of concurrent invocations is the list of the events
  in the order in which the table serves them.
\<close>

fun serve_all :: "json_lib \<Rightarrow> 'st client \<Rightarrow> event list \<Rightarrow> 'st \<Rightarrow> (exn + response) list \<times> 'st" where
  "serve_all lib c [] st = ([], st)"
| "serve_all lib c (ev # evs) st =
     (case lambda_handler lib c ev st of
        (r, st') \<Rightarrow> (case serve_all lib c evs st' of (rs, st'') \<Rightarrow> (r # rs, st'')))"

subsection \<open>A sample JSON library\<close>

text \<open>
  The closed instances below need a JSON library to run on. The sample decoder knows the
  request bodies of \<^verbatim>\<open>test_counter.py\<close> and rejects every other string with the error
  \<^verbatim>\<open>json.loads\<close> raises on \<^verbatim>\<open>"not json"\<close> and on the empty string.
\<close>

definition sample_loads :: "string \<Rightarrow> exn + json" where
  \<open>sample_loads s =
     (if s = ''{}'' then Inr (JDict [])
      else if s = ''{"path": ""}'' then Inr (JDict [(''path'', JStr [])])
      else if s = ''{"path": "/"}'' then Inr (JDict [(''path'', JStr ''/'')])
      else if s = ''{"path": "/about"}'' then Inr (JDict [(''path'', JStr ''/about'')])
      else if s = ''{"path": "/test"}'' then Inr (JDict [(''path'', JStr ''/test'')])
      else if s = ''{"path": null}'' then Inr (JDict [(''path'', JNone)])
      else if s = ''{"path": false}'' then Inr (JDict [(''path'', JBool False)])
      else if s = ''{"path": 0}'' then Inr (JDict [(''path'', JInt 0)])
      else if s = ''[]'' then Inr (JList [])
      else Inl (JSONDecodeError ''Expecting value: line 1 column 1 (char 0)''))\<close>

text \<open>
  The sample encoder follows \<^verbatim>\<open>json.dumps\<close> with its default arguments: the
  separators \<^verbatim>\<open>", "\<close> and \<^verbatim>\<open>": "\<close>, and every character outside \<^verbatim>\<open>' '..'~'\<close>
  escaped. A finite float other than zero is printed by \<^verbatim>\<open>float.__repr__\<close>, which the
  sample does not compute: it stands as \<^verbatim>\<open>float\<close>.
\<close>

fun nat_str :: "nat \<Rightarrow> string" where
  "nat_str n =
     (if n < 10 then [''0123456789'' ! n]
      else nat_str (n div 10) @ [''0123456789'' ! (n mod 10)])"

declare nat_str.simps [simp del]

definition int_str :: "int \<Rightarrow> string" where
  "int_str i = (if i < 0 then ''-'' @ nat_str (nat (- i)) else nat_str (nat i))"

definition hex4 :: "nat \<Rightarrow> string" where
  "hex4 n = map (\<lambda>k. ''0123456789abcdef'' ! ((n div 16 ^ k) mod 16)) [3, 2, 1, 0]"

definition escape_char :: "char \<Rightarrow> string" where
  "escape_char c =
     (if c = CHR 0x22 then [CHR 0x5C, CHR 0x22]
      else if c = CHR 0x5C then [CHR 0x5C, CHR 0x5C]
      else if c = CHR 0x08 then [CHR 0x5C, CHR ''b'']
      else if c = CHR 0x0C then [CHR 0x5C, CHR ''f'']
      else if c = CHR 0x0A then [CHR 0x5C, CHR ''n'']
      else if c = CHR 0x0D then [CHR 0x5C, CHR ''r'']
      else if c = CHR 0x09 then [CHR 0x5C, CHR ''t'']
      else if 32 \<le> (of_char c :: nat) \<and> (of_char c :: nat) \<le> 126 then [c]
      else [CHR 0x5C, CHR ''u''] @ hex4 (of_char c))"

definition str_json :: "string \<Rightarrow> string" where
  "str_json s = [CHR 0x22] @ concat (map escape_char s) @ [CHR 0x22]"

fun float_json :: "pyfloat \<Rightarrow> string" where
  "float_json FNaN = ''NaN''"
| "float_json (FInf s) = (if s then ''-Infinity'' else ''Infinity'')"
| "float_json (FFinite s m e) =
     (if m = 0 then (if s then ''-0.0'' else ''0.0'') else ''float'')"

fun join :: "string \<Rightarrow> string list \<Rightarrow> string" where
  "join sep [] = []"
| "join sep [x] = x"
| "join sep (x # y # ys) = x @ sep @ join sep (y # ys)"

primrec sample_dumps :: "json \<Rightarrow> string" where
  "sample_dumps JNone = ''null''"
| "sample_dumps (JBool b) = (if b then ''true'' else ''false'')"
| "sample_dumps (JInt i) = int_str i"
| "sample_dumps (JFloat f) = float_json f"
| "sample_dumps (JStr s) = str_json s"
| "sample_dumps (JList xs) = ''['' @ join '', '' (map sample_dumps xs) @ '']''"
| "sample_dumps (JDict d) =
     ''{'' @ join '', '' (map (\<lambda>(k, s). str_json k @ '': '' @ s) (map (map_prod id sample_dumps) d)) @ ''}''"

definition sample_lib :: json_lib where
  "sample_lib = \<lparr> json_loads = sample_loads, json_dumps = sample_dumps \<rparr>"

text \<open>
  The mocked table of \<^verbatim>\<open>test_counter.py\<close>: \<^verbatim>\<open>update_item\<close> returns the value it
  was set up with, or raises the exception it was set up with; it has no state.
\<close>

definition mock_returning :: "number \<Rightarrow> unit client" where
  "mock_returning v req st = (Inr \<lparr> Attributes = Some [(''visit_count'', v)] \<rparr>, st)"

definition mock_raising :: "exn \<Rightarrow> unit client" where
  "mock_raising e req st = (Inl e, st)"

section \<open>Properties\<close>

subsection \<open>The paths through the handler\<close>

text \<open>
  One lemma for each way through the handler: the decoding raises; the decoded body has
  no \<^verbatim>\<open>get\<close>; the path is rejected; the table raises; the table returns.
\<close>

lemma handler_raises:
  "decode_body lib ev = Inl e \<Longrightarrow> lambda_handler lib c ev st = (Inl e, st)"
  by (simp add: lambda_handler_def)

lemma handler_catches:
  "decode_body lib ev = Inr payload \<Longrightarrow>
   lambda_handler lib c ev st =
     (case try_block lib c payload st of
        (Inl e, st') \<Rightarrow> (Inr (error_response lib e), st')
      | (Inr r, st') \<Rightarrow> (Inr r, st'))"
  by (simp add: lambda_handler_def split: prod.splits sum.splits exn.splits)

lemma handler_not_dict:
  "decode_body lib ev = Inr payload \<Longrightarrow> py_get payload ''path'' (JStr ''/'') = Inl e \<Longrightarrow>
   lambda_handler lib c ev st = (Inr (error_response lib e), st)"
  by (simp add: handler_catches try_block_def)

lemma handler_missing_path:
  "decode_body lib ev = Inr payload \<Longrightarrow> py_get payload ''path'' (JStr ''/'') = Inr raw \<Longrightarrow>
   normalize_path raw = None \<Longrightarrow>
   lambda_handler lib c ev st = (Inr (missing_path_response lib), st)"
  by (simp add: handler_catches try_block_def)

lemma handler_store_raises:
  "decode_body lib ev = Inr payload \<Longrightarrow> py_get payload ''path'' (JStr ''/'') = Inr raw \<Longrightarrow>
   normalize_path raw = Some path' \<Longrightarrow> c (increment_request path') st = (Inl e, st') \<Longrightarrow>
   lambda_handler lib c ev st = (Inr (error_response lib e), st')"
  by (simp add: handler_catches try_block_def)

lemma handler_store_returns:
  "decode_body lib ev = Inr payload \<Longrightarrow> py_get payload ''path'' (JStr ''/'') = Inr raw \<Longrightarrow>
   normalize_path raw = Some path' \<Longrightarrow> c (increment_request path') st = (Inr out, st') \<Longrightarrow>
   lambda_handler lib c ev st =
     (case visit_count_of out of
        Inl e \<Rightarrow> Inr (error_response lib e)
      | Inr v \<Rightarrow> Inr (success_response lib path' (py_int v)), st')"
  by (simp add: handler_catches try_block_def split: sum.splits)

lemma handler_resolved:
  "resolved_path lib ev = Some path' \<Longrightarrow>
   lambda_handler lib c ev st =
     (case c (increment_request path') st of
        (Inl e, st') \<Rightarrow> (Inr (error_response lib e), st')
      | (Inr out, st') \<Rightarrow>
          (case visit_count_of out of
             Inl e \<Rightarrow> Inr (error_response lib e)
           | Inr v \<Rightarrow> Inr (success_response lib path' (py_int v)), st'))"
  by (auto simp: resolved_path_def handler_catches try_block_def split: sum.splits prod.splits)

lemma recording_call:
  "recording c req (log, st) = (fst (c req st), (log @ [req], snd (c req st)))"
  by (simp add: recording_def split: prod.splits)

lemma table_increment:
  "table_update_item (increment_request (JStr p)) t =
     (Inr \<lparr> Attributes = Some [(''visit_count'', NDecimal ((case t p of None \<Rightarrow> 0 | Some n \<Rightarrow> n) + 1) 0)] \<rparr>,
      t(p \<mapsto> (case t p of None \<Rightarrow> 0 | Some n \<Rightarrow> n) + 1))"
  by (simp add: table_update_item_def increment_request_def Let_def)

lemma visit_count_of_single:
  "visit_count_of \<lparr> Attributes = Some [(''visit_count'', v)] \<rparr> = Inr v"
  by (simp add: visit_count_of_def)

lemma py_int_integral: "py_int (NDecimal n 0) = n"
  by simp


lemma handler_returns:
  "decode_body lib ev = Inr payload \<Longrightarrow>
   \<exists>r st'. lambda_handler lib c ev st = (Inr r, st') \<and> statusCode r \<in> {200, 400, 500}"
  by (auto simp: handler_catches try_block_def error_response_def missing_path_response_def
      success_response_def split: sum.splits option.splits prod.splits)

lemma handler_on_table:
  "resolved_path lib ev = Some (JStr p) \<Longrightarrow>
   lambda_handler lib table_update_item ev t =
     (Inr (success_response lib (JStr p) ((case t p of None \<Rightarrow> 0 | Some n \<Rightarrow> n) + 1)),
      t(p \<mapsto> (case t p of None \<Rightarrow> 0 | Some n \<Rightarrow> n) + 1))"
  by (simp add: handler_resolved table_increment visit_count_of_single)

lemma handler_recorded_call:
  "resolved_path lib ev = Some path' \<Longrightarrow>
   fst (snd (lambda_handler lib (recording c) ev (log, st))) = log @ [increment_request path']"
  by (simp add: handler_resolved recording_call split: sum.splits)

lemma resolved_pathI:
  "decode_body lib ev = Inr payload \<Longrightarrow> py_get payload ''path'' (JStr ''/'') = Inr raw \<Longrightarrow>
   resolved_path lib ev = normalize_path raw"
  by (simp add: resolved_path_def)

lemma sample_absent: "decode_body sample_lib Map.empty = Inr (JDict [])"
  by (simp add: decode_body_def sample_lib_def sample_loads_def)

lemma sample_predecoded: "decode_body lib [''body'' \<mapsto> JDict d] = Inr (JDict d)"
  by (simp add: decode_body_def)

lemma sample_not_json:
  "json_loads sample_lib ''not json'' = Inl (JSONDecodeError ''Expecting value: line 1 column 1 (char 0)'')"
  by (simp add: sample_lib_def sample_loads_def)

lemma sample_dumps_missing:
  \<open>json_dumps sample_lib (JDict [(''error'', JStr ''Missing path parameter'')]) =
     ''{"error": "Missing path parameter"}''\<close>
  by code_simp

lemma sample_test_body:
  \<open>decode_body sample_lib [''body'' \<mapsto> JStr ''{"path": "/test"}''] = Inr (JDict [(''path'', JStr ''/test'')])\<close>
  by (simp add: decode_body_def sample_lib_def sample_loads_def)

lemma get_test_path:
  "py_get (JDict [(''path'', JStr ''/test'')]) ''path'' (JStr ''/'') = Inr (JStr ''/test'')"
  by simp

lemma normalize_test_path: "normalize_path (JStr ''/test'') = Some (JStr ''/test'')"
  by (simp add: normalize_path_def)

lemma resolved_test_path:
  \<open>resolved_path sample_lib [''body'' \<mapsto> JStr ''{"path": "/test"}''] = Some (JStr ''/test'')\<close>
  by (simp add: resolved_pathI [OF sample_test_body get_test_path] normalize_test_path)

lemma sample_dumps_error:
  \<open>json_dumps sample_lib (JDict [(''error'', JStr ''An error occurred (500) when calling the UpdateItem operation: DynamoDB error'')]) =
     ''{"error": "An error occurred (500) when calling the UpdateItem operation: DynamoDB error"}''\<close>
  by code_simp


lemma sample_root_body:
  \<open>decode_body sample_lib [''body'' \<mapsto> JStr ''{"path": "/"}''] = Inr (JDict [(''path'', JStr ''/'')])\<close>
  by (simp add: decode_body_def sample_lib_def sample_loads_def)

lemma sample_dumps_root:
  \<open>json_dumps sample_lib (JDict [(''path'', JStr ''/index.html''), (''visit_count'', JInt 1)]) =
     ''{"path": "/index.html", "visit_count": 1}''\<close>
  by code_simp

lemma ok_response_origin:
  assumes "lambda_handler lib c ev st = (Inr r, st')" and "statusCode r = 200"
  shows "\<exists>payload raw path' out v.
           decode_body lib ev = Inr payload
           \<and> py_get payload ''path'' (JStr ''/'') = Inr raw
           \<and> normalize_path raw = Some path'
           \<and> c (increment_request path') st = (Inr out, st')
           \<and> visit_count_of out = Inr v
           \<and> r = success_response lib path' (py_int v)"
proof (cases "decode_body lib ev")
  case (Inl e)
  then show ?thesis using assms(1) by (simp add: handler_raises)
next
  case (Inr payload)
  note decoded = this
  show ?thesis
  proof (cases "py_get payload ''path'' (JStr ''/'')")
    case (Inl e)
    then show ?thesis
      using assms decoded by (auto simp: handler_not_dict error_response_def)
  next
    case (Inr raw)
    note got = this
    show ?thesis
    proof (cases "normalize_path raw")
      case None
      then show ?thesis
        using assms decoded got by (auto simp: handler_missing_path missing_path_response_def)
    next
      case (Some path')
      obtain x st2 where call: "c (increment_request path') st = (x, st2)"
        by (cases "c (increment_request path') st")
      show ?thesis
      proof (cases x)
        case (Inl e)
        then show ?thesis
          using assms decoded got Some call
          by (auto simp: handler_store_raises error_response_def)
      next
        case (Inr out)
        then have "lambda_handler lib c ev st =
            (case visit_count_of out of
               Inl e \<Rightarrow> Inr (error_response lib e)
             | Inr v \<Rightarrow> Inr (success_response lib path' (py_int v)), st2)"
          using decoded got Some call by (simp add: handler_store_returns)
        then show ?thesis
          using assms decoded got Some call Inr
          by (auto simp: error_response_def split: sum.splits)
      qed
    qed
  qed
qed


lemma resolved_predecoded:
  "resolved_path lib [''body'' \<mapsto> JDict [(''path'', JStr ''/about'')]] = Some (JStr ''/about'')"
  by (simp add: resolved_path_def decode_body_def normalize_path_def)


lemma sample_dumps_index:
  \<open>json_dumps sample_lib (JDict [(''path'', JStr ''/index.html''), (''visit_count'', JInt 8)]) =
     ''{"path": "/index.html", "visit_count": 8}''\<close>
  \<open>json_dumps sample_lib (JDict [(''path'', JStr ''/index.html''), (''visit_count'', JInt 9)]) =
     ''{"path": "/index.html", "visit_count": 9}''\<close>
  \<open>json_dumps sample_lib (JDict [(''path'', JStr ''/index.html''), (''visit_count'', JInt 10)]) =
     ''{"path": "/index.html", "visit_count": 10}''\<close>
  by code_simp+

lemma resolved_index:
  "resolved_path sample_lib [''body'' \<mapsto> JDict [(''path'', JStr ''/'')]] = Some (JStr ''/index.html'')"
  "resolved_path sample_lib Map.empty = Some (JStr ''/index.html'')"
  "resolved_path sample_lib [''body'' \<mapsto> JDict [(''path'', JStr ''/index.html'')]] = Some (JStr ''/index.html'')"
  by (simp_all add: resolved_path_def decode_body_def normalize_path_def sample_lib_def sample_loads_def)

subsection \<open>Path normalization\<close>

text \<open>
  C1. Path normalization follows its cases: when the body mapping has no \<^verbatim>\<open>path\<close>
  field the extracted path is \<^verbatim>\<open>"/"\<close>, and the event resolves to
  \<^verbatim>\<open>"/index.html"\<close>; a path equal to \<^verbatim>\<open>"/"\<close> is rewritten to \<^verbatim>\<open>"/index.html"\<close>;
  every other non-empty path string is used unchanged.
\<close>

theorem path_normalization_cases:
  assumes "decode_body lib ev = Inr (JDict d)"
  shows "(map_of d ''path'' = None \<longrightarrow>
            py_get (JDict d) ''path'' (JStr ''/'') = Inr (JStr ''/'')
            \<and> resolved_path lib ev = Some (JStr ''/index.html''))
       \<and> (map_of d ''path'' = Some (JStr ''/'') \<longrightarrow>
            resolved_path lib ev = Some (JStr ''/index.html''))
       \<and> (\<forall>p. map_of d ''path'' = Some (JStr p) \<and> p \<noteq> [] \<and> p \<noteq> ''/'' \<longrightarrow>
            resolved_path lib ev = Some (JStr p))
       \<and> normalize_path (JStr ''/'') = Some (JStr ''/index.html'')
       \<and> (\<forall>p. p \<noteq> [] \<and> p \<noteq> ''/'' \<longrightarrow> normalize_path (JStr p) = Some (JStr p))"
  using assms by (simp add: resolved_path_def normalize_path_def)

theorem path_normalization_cases_witness:
  "decode_body sample_lib Map.empty = Inr (JDict [])
   \<and> resolved_path sample_lib Map.empty = Some (JStr ''/index.html'')
   \<and> resolved_path sample_lib [''body'' \<mapsto> JDict [(''path'', JStr ''/'')]] = Some (JStr ''/index.html'')
   \<and> resolved_path sample_lib [''body'' \<mapsto> JDict [(''path'', JStr ''/about'')]] = Some (JStr ''/about'')
   \<and> normalize_path (JStr ''/blog/post-1'') = Some (JStr ''/blog/post-1'')"
  using path_normalization_cases [OF sample_absent]
    path_normalization_cases [OF sample_predecoded, of "[(''path'', JStr ''/'')]" sample_lib]
    path_normalization_cases [OF sample_predecoded, of "[(''path'', JStr ''/about'')]" sample_lib]
  by (simp add: sample_absent)

text \<open>
  C8. Path normalization is idempotent: where it succeeds on \<open>x\<close> with result \<open>y\<close>, it
  succeeds on \<open>y\<close> with result \<open>y\<close>.
\<close>

theorem normalize_path_idempotent:
  "normalize_path x = Some y \<Longrightarrow> normalize_path y = Some y"
  by (auto simp: normalize_path_def split: if_splits)

theorem normalize_path_idempotent_witness:
  "normalize_path (JStr ''/'') = Some (JStr ''/index.html'')
   \<and> normalize_path (JStr ''/index.html'') = Some (JStr ''/index.html'')"
proof -
  have h: "normalize_path (JStr ''/'') = Some (JStr ''/index.html'')"
    by (simp add: normalize_path_def)
  show ?thesis using h normalize_path_idempotent [OF h] by simp
qed

subsection \<open>Rejected paths\<close>

text \<open>
  C4. For every event whose body mapping holds \<^verbatim>\<open>path\<close> equal to the empty string, the
  handler returns status 400 with the body \<^verbatim>\<open>{"error": "Missing path parameter"}\<close>, and
  the table receives no call: the list of recorded requests and the state behind the
  client are what they were.
\<close>

theorem empty_path_rejected:
  assumes "decode_body lib ev = Inr (JDict d)" and "map_of d ''path'' = Some (JStr [])"
  shows "lambda_handler lib (recording c) ev (log, st) =
           (Inr \<lparr> statusCode = 400, headers = None,
                   body = json_dumps lib (JDict [(''error'', JStr ''Missing path parameter'')]) \<rparr>,
            (log, st))"
proof -
  have "py_get (JDict d) ''path'' (JStr ''/'') = Inr (JStr [])"
    using assms(2) by simp
  moreover have "normalize_path (JStr []) = None"
    by (simp add: normalize_path_def)
  ultimately show ?thesis
    using assms(1) by (simp add: handler_missing_path missing_path_response_def)
qed

theorem empty_path_rejected_witness:
  \<open>lambda_handler sample_lib (recording (mock_returning (NInt 1)))
      [''body'' \<mapsto> JStr ''{"path": ""}''] ([], ()) =
     (Inr \<lparr> statusCode = 400, headers = None,
             body = ''{"error": "Missing path parameter"}'' \<rparr>, ([], ()))\<close>
proof -
  have d: \<open>decode_body sample_lib [''body'' \<mapsto> JStr ''{"path": ""}''] = Inr (JDict [(''path'', JStr [])])\<close>
    by (simp add: decode_body_def sample_lib_def sample_loads_def)
  show ?thesis
    using empty_path_rejected [OF d, of "mock_returning (NInt 1)" "[]" "()"]
    by (simp add: sample_dumps_missing)
qed

text \<open>
  C10. The rejection is a truth-value test: for every body mapping whose \<^verbatim>\<open>path\<close> is a
  falsy value, the handler returns status 400 with the body
  \<^verbatim>\<open>{"error": "Missing path parameter"}\<close> and the table receives no call; the empty string,
  \<^verbatim>\<open>None\<close> (JSON null), \<^verbatim>\<open>False\<close> and \<^verbatim>\<open>0\<close> are falsy.
\<close>

theorem falsy_path_rejected:
  assumes "decode_body lib ev = Inr (JDict d)" and "map_of d ''path'' = Some v"
    and "\<not> truthy v"
  shows "lambda_handler lib (recording c) ev (log, st) =
           (Inr \<lparr> statusCode = 400, headers = None,
                   body = json_dumps lib (JDict [(''error'', JStr ''Missing path parameter'')]) \<rparr>,
            (log, st))
         \<and> \<not> truthy (JStr []) \<and> \<not> truthy JNone \<and> \<not> truthy (JBool False) \<and> \<not> truthy (JInt 0)"
proof -
  have "py_get (JDict d) ''path'' (JStr ''/'') = Inr v"
    using assms(2) by simp
  moreover have "normalize_path v = None"
    using assms(3) by (simp add: normalize_path_def)
  ultimately show ?thesis
    using assms(1) by (simp add: handler_missing_path missing_path_response_def)
qed

theorem falsy_path_rejected_witness:
  \<open>lambda_handler sample_lib (recording (mock_returning (NInt 1)))
      [''body'' \<mapsto> JStr ''{"path": null}''] ([], ()) =
     (Inr \<lparr> statusCode = 400, headers = None,
             body = ''{"error": "Missing path parameter"}'' \<rparr>, ([], ()))
   \<and> lambda_handler sample_lib (recording (mock_returning (NInt 1)))
      [''body'' \<mapsto> JStr ''{"path": false}''] ([], ()) =
     (Inr \<lparr> statusCode = 400, headers = None,
             body = ''{"error": "Missing path parameter"}'' \<rparr>, ([], ()))
   \<and> lambda_handler sample_lib (recording (mock_returning (NInt 1)))
      [''body'' \<mapsto> JStr ''{"path": 0}''] ([], ()) =
     (Inr \<lparr> statusCode = 400, headers = None,
             body = ''{"error": "Missing path parameter"}'' \<rparr>, ([], ()))\<close>
proof -
  have d1: \<open>decode_body sample_lib [''body'' \<mapsto> JStr ''{"path": null}''] = Inr (JDict [(''path'', JNone)])\<close>
    by (simp add: decode_body_def sample_lib_def sample_loads_def)
  have d2: \<open>decode_body sample_lib [''body'' \<mapsto> JStr ''{"path": false}''] = Inr (JDict [(''path'', JBool False)])\<close>
    by (simp add: decode_body_def sample_lib_def sample_loads_def)
  have d3: \<open>decode_body sample_lib [''body'' \<mapsto> JStr ''{"path": 0}''] = Inr (JDict [(''path'', JInt 0)])\<close>
    by (simp add: decode_body_def sample_lib_def sample_loads_def)
  show ?thesis
    using falsy_path_rejected [OF d1, of JNone "mock_returning (NInt 1)" "[]" "()"]
      falsy_path_rejected [OF d2, of "JBool False" "mock_returning (NInt 1)" "[]" "()"]
      falsy_path_rejected [OF d3, of "JInt 0" "mock_returning (NInt 1)" "[]" "()"]
    by (simp add: sample_dumps_missing)
qed

subsection \<open>Exceptions\<close>

text \<open>
  C3. Not every failure becomes a response. The decoding of the body stands before the
  \<^verbatim>\<open>try\<close>: when the body of the event is a string that \<^verbatim>\<open>json.loads\<close> rejects, the
  exception leaves the handler, no response is returned and the table is not called.
  (Once the body is decoded, every path through the handler ends in a response:
  \<open>handler_returns\<close>.)
\<close>

theorem decode_error_propagates:
  "event ''body'' = Some (JStr s) \<Longrightarrow> json_loads lib s = Inl e \<Longrightarrow>
   lambda_handler lib c event st = (Inl e, st)"
  by (simp add: handler_raises decode_body_def)

theorem decode_error_propagates_witness:
  "lambda_handler sample_lib (mock_returning (NInt 1)) [''body'' \<mapsto> JStr ''not json''] () =
     (Inl (JSONDecodeError ''Expecting value: line 1 column 1 (char 0)''), ())"
  using decode_error_propagates [OF _ sample_not_json, of "[''body'' \<mapsto> JStr ''not json'']"]
  by simp

text \<open>
  C6. For every failure the table's client raises during the update, the handler returns
  status 500 with the body \<^verbatim>\<open>{"error": m}\<close>, where \<open>m\<close> is \<^verbatim>\<open>str(e)\<close> of the
  exception the client raised.
\<close>

theorem store_failure_500:
  assumes "resolved_path lib ev = Some path'"
    and "c (increment_request path') st = (Inl e, st')"
  shows "lambda_handler lib c ev st =
           (Inr \<lparr> statusCode = 500, headers = None,
                   body = json_dumps lib (JDict [(''error'', JStr (str_exn e))]) \<rparr>, st')"
  using assms by (simp add: handler_resolved error_response_def)

theorem store_failure_500_witness:
  \<open>lambda_handler sample_lib
      (mock_raising (ClientError ''An error occurred (500) when calling the UpdateItem operation: DynamoDB error''))
      [''body'' \<mapsto> JStr ''{"path": "/test"}''] () =
     (Inr \<lparr> statusCode = 500, headers = None,
             body = ''{"error": "An error occurred (500) when calling the UpdateItem operation: DynamoDB error"}'' \<rparr>, ())\<close>
proof -
  have raised: "mock_raising (ClientError ''An error occurred (500) when calling the UpdateItem operation: DynamoDB error'')
      (increment_request (JStr ''/test'')) () =
      (Inl (ClientError ''An error occurred (500) when calling the UpdateItem operation: DynamoDB error''), ())"
    by (simp add: mock_raising_def)
  show ?thesis
    using store_failure_500 [where c = "mock_raising (ClientError ''An error occurred (500) when calling the UpdateItem operation: DynamoDB error'')"
        and st = "()", OF resolved_test_path raised]
    by (simp add: sample_dumps_error)
qed

subsection \<open>The successful invocation\<close>

text \<open>
  C5. A successful invocation (the body decodes, the extracted path is accepted and the
  update returns a count) is answered with status 200, exactly the two headers
  \<^verbatim>\<open>Access-Control-Allow-Origin: *\<close> and \<^verbatim>\<open>Content-Type: application/json\<close>, and
  the JSON encoding of \<^verbatim>\<open>{"path": p, "visit_count": n}\<close>, where \<open>p\<close> is the normalized
  path, not the extracted one, and \<open>n\<close> is the \<^verbatim>\<open>int\<close> made of the returned count.
  Conversely, a response with status 200 comes from such an invocation only and is that
  response.
\<close>

theorem success_response_shape:
  "(\<forall>payload raw path' out st' v.
      decode_body lib ev = Inr payload
      \<and> py_get payload ''path'' (JStr ''/'') = Inr raw
      \<and> normalize_path raw = Some path'
      \<and> c (increment_request path') st = (Inr out, st')
      \<and> visit_count_of out = Inr v \<longrightarrow>
      lambda_handler lib c ev st =
        (Inr \<lparr> statusCode = 200,
                headers = Some [(''Access-Control-Allow-Origin'', ''*''),
                                (''Content-Type'', ''application/json'')],
                body = json_dumps lib (JDict [(''path'', path'), (''visit_count'', JInt (py_int v))]) \<rparr>,
         st'))
   \<and> (\<forall>r st'.
        lambda_handler lib c ev st = (Inr r, st') \<and> statusCode r = 200 \<longrightarrow>
        (\<exists>payload raw path' out v.
           decode_body lib ev = Inr payload
           \<and> py_get payload ''path'' (JStr ''/'') = Inr raw
           \<and> normalize_path raw = Some path'
           \<and> c (increment_request path') st = (Inr out, st')
           \<and> visit_count_of out = Inr v
           \<and> r = \<lparr> statusCode = 200,
                   headers = Some [(''Access-Control-Allow-Origin'', ''*''),
                                   (''Content-Type'', ''application/json'')],
                   body = json_dumps lib (JDict [(''path'', path'), (''visit_count'', JInt (py_int v))]) \<rparr>))"
proof (intro conjI allI impI)
  fix payload raw path' out st' v
  assume "decode_body lib ev = Inr payload
      \<and> py_get payload ''path'' (JStr ''/'') = Inr raw
      \<and> normalize_path raw = Some path'
      \<and> c (increment_request path') st = (Inr out, st')
      \<and> visit_count_of out = Inr v"
  then show "lambda_handler lib c ev st =
        (Inr \<lparr> statusCode = 200,
                headers = Some [(''Access-Control-Allow-Origin'', ''*''),
                                (''Content-Type'', ''application/json'')],
                body = json_dumps lib (JDict [(''path'', path'), (''visit_count'', JInt (py_int v))]) \<rparr>,
         st')"
    by (simp add: handler_store_returns success_response_def)
next
  fix r st'
  assume ok: "lambda_handler lib c ev st = (Inr r, st') \<and> statusCode r = 200"
  have "\<exists>payload raw path' out v.
           decode_body lib ev = Inr payload
           \<and> py_get payload ''path'' (JStr ''/'') = Inr raw
           \<and> normalize_path raw = Some path'
           \<and> c (increment_request path') st = (Inr out, st')
           \<and> visit_count_of out = Inr v
           \<and> r = success_response lib path' (py_int v)"
    by (rule ok_response_origin [OF conjunct1 [OF ok] conjunct2 [OF ok]])
  then show "\<exists>payload raw path' out v.
           decode_body lib ev = Inr payload
           \<and> py_get payload ''path'' (JStr ''/'') = Inr raw
           \<and> normalize_path raw = Some path'
           \<and> c (increment_request path') st = (Inr out, st')
           \<and> visit_count_of out = Inr v
           \<and> r = \<lparr> statusCode = 200,
                   headers = Some [(''Access-Control-Allow-Origin'', ''*''),
                                   (''Content-Type'', ''application/json'')],
                   body = json_dumps lib (JDict [(''path'', path'), (''visit_count'', JInt (py_int v))]) \<rparr>"
    by (simp only: success_response_def)
qed

theorem success_response_shape_witness:
  \<open>lambda_handler sample_lib (mock_returning (NInt 1)) [''body'' \<mapsto> JStr ''{"path": "/"}''] () =
     (Inr \<lparr> statusCode = 200,
             headers = Some [(''Access-Control-Allow-Origin'', ''*''),
                             (''Content-Type'', ''application/json'')],
             body = ''{"path": "/index.html", "visit_count": 1}'' \<rparr>, ())\<close>
proof -
  have got: "py_get (JDict [(''path'', JStr ''/'')]) ''path'' (JStr ''/'') = Inr (JStr ''/'')"
    by simp
  have norm: "normalize_path (JStr ''/'') = Some (JStr ''/index.html'')"
    by (simp add: normalize_path_def)
  have call: "mock_returning (NInt 1) (increment_request (JStr ''/index.html'')) () =
      (Inr \<lparr> Attributes = Some [(''visit_count'', NInt 1)] \<rparr>, ())"
    by (simp add: mock_returning_def)
  have count: "visit_count_of \<lparr> Attributes = Some [(''visit_count'', NInt 1)] \<rparr> = Inr (NInt 1)"
    by (rule visit_count_of_single)
  have all: "decode_body sample_lib [''body'' \<mapsto> JStr ''{\"path\": \"/\"}''] = Inr (JDict [(''path'', JStr ''/'')])
      \<and> py_get (JDict [(''path'', JStr ''/'')]) ''path'' (JStr ''/'') = Inr (JStr ''/'')
      \<and> normalize_path (JStr ''/'') = Some (JStr ''/index.html'')
      \<and> mock_returning (NInt 1) (increment_request (JStr ''/index.html'')) () =
          (Inr \<lparr> Attributes = Some [(''visit_count'', NInt 1)] \<rparr>, ())
      \<and> visit_count_of \<lparr> Attributes = Some [(''visit_count'', NInt 1)] \<rparr> = Inr (NInt 1)"
    using sample_root_body got norm call count by blast
  show ?thesis
    using success_response_shape [where c = "mock_returning (NInt 1)" and st = "()",
        THEN conjunct1, rule_format, OF all]
    by (simp add: sample_dumps_root)
qed



subsection \<open>The call to the table\<close>



text \<open>
  C9. The handler does no read followed by a write: each invocation for the path \<open>p\<close>
  makes the one conditional update call. The table serves each call as one step, so that
  concurrent invocations for \<open>p\<close> are served in some order \<open>evs\<close>; whatever the order,
  the \<open>N\<close> results are the counts \<open>c + 1, \<dots>, c + N\<close>, one each, where \<open>c\<close> is the count
  before (0 when there is none): no duplicate and no gap.
\<close>

theorem concurrent_increments_sequential:
  assumes "\<forall>ev \<in> set evs. resolved_path lib ev = Some (JStr p)"
  shows "fst (serve_all lib table_update_item evs t) =
           map (\<lambda>i. Inr (success_response lib (JStr p)
                           ((case t p of None \<Rightarrow> 0 | Some n \<Rightarrow> n) + 1 + int i)))
               [0..<length evs]
       \<and> (\<forall>ev \<in> set evs. \<forall>c log st.
            fst (snd (lambda_handler lib (recording c) ev (log, st))) =
              log @ [increment_request (JStr p)])"
proof -
  have "fst (serve_all lib table_update_item evs t) =
           map (\<lambda>i. Inr (success_response lib (JStr p)
                           ((case t p of None \<Rightarrow> 0 | Some n \<Rightarrow> n) + 1 + int i)))
               [0..<length evs]"
    using assms
  proof (induction evs arbitrary: t)
    case Nil
    then show ?case by simp
  next
    case (Cons ev evs)
    let ?n = "(case t p of None \<Rightarrow> 0 | Some n \<Rightarrow> n) + 1"
    have step: "lambda_handler lib table_update_item ev t =
        (Inr (success_response lib (JStr p) ?n), t(p \<mapsto> ?n))"
      using Cons.prems by (simp add: handler_on_table)
    have rest: "fst (serve_all lib table_update_item evs (t(p \<mapsto> ?n))) =
        map (\<lambda>i. Inr (success_response lib (JStr p) (?n + 1 + int i))) [0..<length evs]"
    proof -
      have tl: "\<forall>ev \<in> set evs. resolved_path lib ev = Some (JStr p)"
        using Cons.prems by simp
      have now: "(case (t(p \<mapsto> ?n)) p of None \<Rightarrow> 0 | Some n \<Rightarrow> n) = ?n"
        by simp
      show ?thesis
        using Cons.IH [of "t(p \<mapsto> ?n)", OF tl] by (simp only: now)
    qed
    have "fst (serve_all lib table_update_item (ev # evs) t) =
        Inr (success_response lib (JStr p) ?n) # fst (serve_all lib table_update_item evs (t(p \<mapsto> ?n)))"
      using step by (simp split: prod.splits)
    also have "\<dots> = Inr (success_response lib (JStr p) (?n + int 0)) #
        map (\<lambda>i. Inr (success_response lib (JStr p) (?n + int (Suc i)))) [0..<length evs]"
      using rest by (simp add: algebra_simps)
    also have "\<dots> = map (\<lambda>i. Inr (success_response lib (JStr p) (?n + int i))) [0..<length (ev # evs)]"
      by (simp only: length_Cons map_upt_Suc)
    finally show ?case by simp
  qed
  moreover have "\<forall>ev \<in> set evs. \<forall>c log st.
            fst (snd (lambda_handler lib (recording c) ev (log, st))) =
              log @ [increment_request (JStr p)]"
    using assms by (simp add: handler_recorded_call)
  ultimately show ?thesis by blast
qed

theorem concurrent_increments_sequential_witness:
  \<open>fst (serve_all sample_lib table_update_item
          [[''body'' \<mapsto> JDict [(''path'', JStr ''/'')]], Map.empty,
           [''body'' \<mapsto> JDict [(''path'', JStr ''/index.html'')]]]
          [''/index.html'' \<mapsto> 7]) =
     [Inr \<lparr> statusCode = 200,
             headers = Some [(''Access-Control-Allow-Origin'', ''*''),
                             (''Content-Type'', ''application/json'')],
             body = ''{"path": "/index.html", "visit_count": 8}'' \<rparr>,
      Inr \<lparr> statusCode = 200,
             headers = Some [(''Access-Control-Allow-Origin'', ''*''),
                             (''Content-Type'', ''application/json'')],
             body = ''{"path": "/index.html", "visit_count": 9}'' \<rparr>,
      Inr \<lparr> statusCode = 200,
             headers = Some [(''Access-Control-Allow-Origin'', ''*''),
                             (''Content-Type'', ''application/json'')],
             body = ''{"path": "/index.html", "visit_count": 10}'' \<rparr>]\<close>
proof -
  have all: "\<forall>ev \<in> set [[''body'' \<mapsto> JDict [(''path'', JStr ''/'')]], Map.empty,
           [''body'' \<mapsto> JDict [(''path'', JStr ''/index.html'')]]].
      resolved_path sample_lib ev = Some (JStr ''/index.html'')"
    by (simp add: resolved_index)
  have upt3: "[0..<length [[''body'' \<mapsto> JDict [(''path'', JStr ''/'')]], Map.empty,
           [''body'' \<mapsto> JDict [(''path'', JStr ''/index.html'')]]]] = [0, 1, 2]"
    by (simp add: upt_rec)
  show ?thesis
    using concurrent_increments_sequential [OF all, of "[''/index.html'' \<mapsto> 7]", THEN conjunct1]
    by (simp only: upt3) (simp add: success_response_def sample_dumps_index)
qed

end
